theory Spec2Isabelle
  imports Complex_Main "HOL-Library.Sublist"
begin

section \<open>Python values\<close>

text \<open>
  The two services of the repository move JSON-like Python values around: job payloads,
  message dicts, generation parameters and response dicts. A dict is an association
  list read through \<open>map_of\<close>, which is what \<open>.get\<close> needs. Text is a list of
  characters, each a code point below 256. A float is carried as the number its literal
  denotes: the code passes floats on and tests them for truth, and never computes with
  them.
\<close>

datatype pyval =
    PNone
  | PBool bool
  | PInt int
  | PFloat rat
  | PStr string
  | PList "pyval list"
  | PDict "(string \<times> pyval) list"

type_synonym dict = "(string \<times> pyval) list"

text \<open>
  An instance of Python's \<open>Exception\<close>: the name of its class, which
  \<open>type(e).__name__\<close> reads, and its message, which \<open>str(e)\<close> reads.
\<close>

datatype exn = Exn (error_type: string) (message: string)

fun type_name :: "pyval \<Rightarrow> string" where
  "type_name PNone = ''NoneType''"
| "type_name (PBool b) = ''bool''"
| "type_name (PInt i) = ''int''"
| "type_name (PFloat f) = ''float''"
| "type_name (PStr s) = ''str''"
| "type_name (PList xs) = ''list''"
| "type_name (PDict d) = ''dict''"

definition quoted :: "string \<Rightarrow> string" where
  "quoted s = CHR 0x27 # s @ [CHR 0x27]"

text \<open>What \<open>v.get\<close> raises when \<open>v\<close> is not a dict.\<close>

definition no_attribute_get :: "pyval \<Rightarrow> exn" where
  "no_attribute_get v =
     Exn ''AttributeError'' (quoted (type_name v) @ '' object has no attribute '' @ quoted ''get'')"

text \<open>What \<open>for x in v\<close> raises when \<open>v\<close> cannot be iterated.\<close>

definition not_iterable :: "pyval \<Rightarrow> exn" where
  "not_iterable v = Exn ''TypeError'' (quoted (type_name v) @ '' object is not iterable'')"

text \<open>What \<open>xs[0]\<close> raises on an empty list.\<close>

definition index_out_of_range :: exn where
  "index_out_of_range = Exn ''IndexError'' ''list index out of range''"

text \<open>\<open>d.get(k, default)\<close>\<close>

definition dict_get :: "dict \<Rightarrow> string \<Rightarrow> pyval \<Rightarrow> pyval" where
  "dict_get d k dflt = (case map_of d k of None \<Rightarrow> dflt | Some v \<Rightarrow> v)"

text \<open>The truth value Python gives a value in \<open>if v\<close> and \<open>not v\<close>.\<close>

fun truthy :: "pyval \<Rightarrow> bool" where
  "truthy PNone = False"
| "truthy (PBool b) = b"
| "truthy (PInt i) = (i \<noteq> 0)"
| "truthy (PFloat f) = (f \<noteq> 0)"
| "truthy (PStr s) = (s \<noteq> [])"
| "truthy (PList xs) = (xs \<noteq> [])"
| "truthy (PDict d) = (d \<noteq> [])"

text \<open>
  The elements a \<open>for\<close> loop visits: those of a list, the one-character strings of a
  string, the keys of a dict; nothing else in a payload can be iterated.
\<close>

fun py_iter :: "pyval \<Rightarrow> exn + pyval list" where
  "py_iter (PList xs) = Inr xs"
| "py_iter (PStr s) = Inr (map (\<lambda>c. PStr [c]) s)"
| "py_iter (PDict d) = Inr (map PStr (remdups (map fst d)))"
| "py_iter v = Inl (not_iterable v)"

text \<open>
  \<open>str(v)\<close>, and \<open>{v}\<close> in an f-string: a string is itself. The text of any other
  value is the interpreter's business, so the built-in is a parameter \<open>str\<close>.
\<close>

definition py_str :: "(pyval \<Rightarrow> string) \<Rightarrow> pyval \<Rightarrow> string" where
  "py_str str v = (case v of PStr s \<Rightarrow> s | _ \<Rightarrow> str v)"


section \<open>The serverless handler: \<open>runpod-template/handler.py\<close>\<close>

subsection \<open>The inference library\<close>

text \<open>
  The objects of the inference library, with the fields the handler reads or writes.
  \<open>finish_reason\<close> is what the engine reports about why a completion ended; the
  handler never reads it.
\<close>

record sampling_params =
  temperature :: pyval
  top_p :: pyval
  top_k :: pyval
  max_tokens :: pyval
  stop :: pyval
  presence_penalty :: pyval
  frequency_penalty :: pyval

record completion_output =
  output_text :: string
  token_ids :: "int list"
  finish_reason :: "string option"

record request_output =
  request_id :: string
  prompt_token_ids :: "int list"
  outputs :: "completion_output list"

text \<open>
  The globals of the module: the model name, the engine's \<open>generate\<close> (building the
  \<open>SamplingParams\<close> object and generating are the library's, and either may raise:
  that is the \<open>Inl\<close> result), and the built-in \<open>str\<close>.
\<close>

record handler_env =
  MODEL_NAME :: string
  llm_generate :: "string list \<Rightarrow> sampling_params \<Rightarrow> exn + request_output list"
  builtin_str :: "pyval \<Rightarrow> string"

text \<open>One call of the engine: the batch of prompts and the sampling parameters.\<close>

type_synonym engine_call = "string list \<times> sampling_params"

subsection \<open>\<open>generate_response\<close>: the prompt\<close>

text \<open>
  The loop over the messages, \<open>prompt_parts\<close> being the list it appends to. A message
  that is not a dict has no \<open>get\<close>.
\<close>

fun prompt_parts :: "(pyval \<Rightarrow> string) \<Rightarrow> pyval list \<Rightarrow> string list \<Rightarrow> exn + string list" where
  "prompt_parts str [] parts = Inr parts"
| "prompt_parts str (msg # msgs) parts =
     (case msg of
        PDict d \<Rightarrow>
          (let role = dict_get d ''role'' (PStr ''user'');
               content = dict_get d ''content'' (PStr '''')
           in if role = PStr ''system'' then
                prompt_parts str msgs (parts @ [''<|system|>\<newline>'' @ py_str str content @ ''</s>''])
              else if role = PStr ''user'' then
                prompt_parts str msgs (parts @ [''<|user|>\<newline>'' @ py_str str content @ ''</s>''])
              else if role = PStr ''assistant'' then
                prompt_parts str msgs (parts @ [''<|assistant|>\<newline>'' @ py_str str content @ ''</s>''])
              else prompt_parts str msgs parts)
      | _ \<Rightarrow> Inl (no_attribute_get msg))"

text \<open>Lines 54 to 69: the loop, the open assistant turn, the join.\<close>

definition build_prompt :: "(pyval \<Rightarrow> string) \<Rightarrow> pyval \<Rightarrow> exn + string" where
  "build_prompt str messages =
     (case py_iter messages of
        Inl e \<Rightarrow> Inl e
      | Inr msgs \<Rightarrow>
          (case prompt_parts str msgs [] of
             Inl e \<Rightarrow> Inl e
           | Inr parts \<Rightarrow> Inr (concat (parts @ [''<|assistant|>\<newline>'']))))"

subsection \<open>\<open>generate_response\<close>: the engine call and the response\<close>

text \<open>
  \<open>s.strip()\<close>: white space off both ends. Of the code points below 256, those that
  \<open>str.isspace\<close> holds of are the tab, the line feed, the vertical tab, the form feed, the
  carriage return, the four separators \<open>0x1C\<close> to \<open>0x1F\<close>, the space, the next line
  \<open>0x85\<close> and the no-break space \<open>0xA0\<close>.
\<close>

definition isspace :: "char \<Rightarrow> bool" where
  "isspace c = (of_char c \<in> {9, 10, 11, 12, 13, 28, 29, 30, 31, 32, 133, 160 :: nat})"

definition strip :: "string \<Rightarrow> string" where
  "strip s = rev (dropWhile isspace (rev (dropWhile isspace s)))"

text \<open>Lines 72 to 80: each parameter from the mapping, or its default.\<close>

definition sampling_params_of :: "dict \<Rightarrow> sampling_params" where
  "sampling_params_of params =
     \<lparr>temperature = dict_get params ''temperature'' (PFloat (7 / 10)),
      top_p = dict_get params ''top_p'' (PFloat (9 / 10)),
      top_k = dict_get params ''top_k'' (PInt 50),
      max_tokens = dict_get params ''max_tokens'' (PInt 2048),
      stop = dict_get params ''stop'' (PList [PStr ''</s>'', PStr ''<|user|>'', PStr ''<|system|>'']),
      presence_penalty = dict_get params ''presence_penalty'' (PFloat 0),
      frequency_penalty = dict_get params ''frequency_penalty'' (PFloat 0)\<rparr>"

text \<open>
  Lines 84 to 110: the first completion of the first output, the two token counts and
  the response dict. \<open>outputs[0]\<close> raises on an empty list.
\<close>

definition response_of :: "string \<Rightarrow> request_output list \<Rightarrow> exn + pyval" where
  "response_of model_name outs =
     (case outs of
        [] \<Rightarrow> Inl index_out_of_range
      | out0 # _ \<Rightarrow>
          (case outputs out0 of
             [] \<Rightarrow> Inl index_out_of_range
           | completion # _ \<Rightarrow>
               (let generated_text = strip (output_text completion);
                    prompt_tokens = int (length (prompt_token_ids out0));
                    completion_tokens = int (length (token_ids completion))
                in Inr (PDict
                     [(''id'', PStr (''notus-'' @ request_id out0)),
                      (''object'', PStr ''chat.completion''),
                      (''model'', PStr model_name),
                      (''choices'', PList [PDict
                         [(''index'', PInt 0),
                          (''message'', PDict
                             [(''role'', PStr ''assistant''),
                              (''content'', PStr generated_text)]),
                          (''finish_reason'', PStr ''stop'')]]),
                      (''usage'', PDict
                         [(''prompt_tokens'', PInt prompt_tokens),
                          (''completion_tokens'', PInt completion_tokens),
                          (''total_tokens'', PInt (prompt_tokens + completion_tokens))])]))))"

text \<open>
  \<open>generate_response\<close> returns the response or the exception it raised, and the calls
  it made to the engine, in order: none when the prompt could not be built, one
  otherwise.
\<close>

definition generate_response :: "handler_env \<Rightarrow> pyval \<Rightarrow> dict \<Rightarrow> (exn + pyval) \<times> engine_call list" where
  "generate_response env messages params =
     (case build_prompt (builtin_str env) messages of
        Inl e \<Rightarrow> (Inl e, [])
      | Inr prompt \<Rightarrow>
          (let sampling = sampling_params_of params
           in (case llm_generate env [prompt] sampling of
                 Inl e \<Rightarrow> (Inl e, [([prompt], sampling)])
               | Inr outs \<Rightarrow> (response_of (MODEL_NAME env) outs, [([prompt], sampling)]))))"

subsection \<open>\<open>handler\<close>\<close>

text \<open>Lines 141 to 149: the parameter dict built from the job input.\<close>

definition handler_params :: "dict \<Rightarrow> dict" where
  "handler_params job_input =
     [(''temperature'', dict_get job_input ''temperature'' (PFloat (7 / 10))),
      (''max_tokens'', dict_get job_input ''max_tokens'' (PInt 2048)),
      (''top_p'', dict_get job_input ''top_p'' (PFloat (9 / 10))),
      (''top_k'', dict_get job_input ''top_k'' (PInt 50)),
      (''stop'', dict_get job_input ''stop'' (PList [PStr ''</s>'', PStr ''<|user|>'', PStr ''<|system|>''])),
      (''presence_penalty'', dict_get job_input ''presence_penalty'' (PFloat 0)),
      (''frequency_penalty'', dict_get job_input ''frequency_penalty'' (PFloat 0))]"

text \<open>
  The handler returns a dict, or raises (\<open>Inl\<close>) when the job's input is not a dict:
  that \<open>.get\<close> is outside the \<open>try\<close>. What \<open>generate_response\<close> raises is caught and
  returned as an error dict.
\<close>

definition handler :: "handler_env \<Rightarrow> dict \<Rightarrow> (exn + pyval) \<times> engine_call list" where
  "handler env job =
     (case dict_get job ''input'' (PDict []) of
        PDict job_input \<Rightarrow>
          (let messages = dict_get job_input ''messages'' (PList [])
           in if \<not> truthy messages then
                (Inr (PDict [(''error'', PStr ''No messages provided in request'')]), [])
              else
                (case generate_response env messages (handler_params job_input) of
                   (Inr response, calls) \<Rightarrow> (Inr response, calls)
                 | (Inl e, calls) \<Rightarrow>
                     (Inr (PDict [(''error'', PStr (message e)),
                                  (''error_type'', PStr (error_type e))]), calls)))
      | v \<Rightarrow> (Inl (no_attribute_get v), []))"


section \<open>The bridge: \<open>server/openmanus_bridge.py\<close>\<close>

record TaskRequest =
  task :: string
  task_type :: "string option"
  request_context :: "dict option"

record TaskResponse =
  success :: bool
  result :: "string option"
  error :: "string option"
  files :: "string list option"

datatype HTTPException = HTTPException (status_code: nat) (detail: string)

text \<open>
  What the bridge reaches outside itself: the global \<open>agent\<close> (\<open>None\<close> until the
  startup event has set it) with its \<open>run\<close>, which returns a value or raises; the three
  functions of \<open>os\<close> it calls, \<open>listdir\<close> raising when the path cannot be listed; and the
  built-in \<open>str\<close>.
\<close>

record bridge_env =
  agent :: "(string \<Rightarrow> exn + pyval) option"
  path_exists :: "string \<Rightarrow> bool"
  listdir :: "string \<Rightarrow> exn + string list"
  path_isfile :: "string \<Rightarrow> bool"
  bridge_str :: "pyval \<Rightarrow> string"

text \<open>\<open>os.path.join\<close> of two components, on POSIX.\<close>

definition path_join :: "string \<Rightarrow> string \<Rightarrow> string" where
  "path_join a b =
     (if b \<noteq> [] \<and> hd b = CHR ''/'' then b
      else if a = [] \<or> last a = CHR ''/'' then a @ b
      else a @ ''/'' @ b)"

definition workspace_path :: string where
  "workspace_path = ''/home/ubuntu/OpenManus/workspace''"

text \<open>Lines 83 to 86: the loop over the directory's entries, \<open>found\<close> being the list \<open>files\<close> it appends to.\<close>

fun workspace_files :: "(string \<Rightarrow> bool) \<Rightarrow> string list \<Rightarrow> string list \<Rightarrow> string list" where
  "workspace_files isfile [] found = found"
| "workspace_files isfile (file # rest) found =
     (let file_path = path_join workspace_path file
      in if isfile file_path then workspace_files isfile rest (found @ [file_path])
         else workspace_files isfile rest found)"

text \<open>\<open>TaskResponse(success=False, error=str(e))\<close>, the other fields at their defaults.\<close>

definition failed :: "exn \<Rightarrow> TaskResponse" where
  "failed e = \<lparr>success = False, result = None, error = Some (message e), files = Some []\<rparr>"

text \<open>
  An endpoint returns a body, sent with the status of success, or raises an
  \<open>HTTPException\<close>. In \<open>execute_task\<close> the \<open>try\<close> holds the agent's run and the listing
  of the workspace alike.
\<close>

definition execute_task :: "bridge_env \<Rightarrow> TaskRequest \<Rightarrow> HTTPException + TaskResponse" where
  "execute_task env request =
     (case agent env of
        None \<Rightarrow> Inl (HTTPException 500 ''Agent not initialized'')
      | Some run \<Rightarrow>
          (case run (task request) of
             Inl e \<Rightarrow> Inr (failed e)
           | Inr res \<Rightarrow>
               (let result_text = (if truthy res then py_str (bridge_str env) res
                                   else ''Task completed'')
                in if path_exists env workspace_path then
                     (case listdir env workspace_path of
                        Inl e \<Rightarrow> Inr (failed e)
                      | Inr names \<Rightarrow>
                          Inr \<lparr>success = True, result = Some result_text, error = None,
                               files = Some (workspace_files (path_isfile env) names [])\<rparr>)
                   else
                     Inr \<lparr>success = True, result = Some result_text, error = None,
                          files = Some []\<rparr>)))"

definition chat :: "bridge_env \<Rightarrow> TaskRequest \<Rightarrow> HTTPException + pyval" where
  "chat env request =
     (case agent env of
        None \<Rightarrow> Inl (HTTPException 500 ''Agent not initialized'')
      | Some run \<Rightarrow>
          (case run (task request) of
             Inl e \<Rightarrow> Inl (HTTPException 500 (message e))
           | Inr res \<Rightarrow>
               Inr (PDict [(''success'', PBool True),
                           (''response'', PStr (py_str (bridge_str env) res))])))"


section \<open>The prompt as the specification words it\<close>

text \<open>
  A delimited segment: the role tag, a newline, the content, the end-of-turn marker.
\<close>

definition segment :: "string \<Rightarrow> string \<Rightarrow> string" where
  "segment role content = ''<|'' @ role @ ''|>'' @ ''\<newline>'' @ content @ ''</s>''"

text \<open>
  The role of a message when it is one of the three recognized ones. A message without a
  \<open>role\<close> key counts as a user message (line 57).
\<close>

definition recognized_role :: "dict \<Rightarrow> string option" where
  "recognized_role d =
     (case dict_get d ''role'' (PStr ''user'') of
        PStr r \<Rightarrow> if r = ''system'' \<or> r = ''user'' \<or> r = ''assistant'' then Some r else None
      | _ \<Rightarrow> None)"

text \<open>The segment of a message of a recognized role; no segment for any other message.\<close>

definition message_segment :: "(pyval \<Rightarrow> string) \<Rightarrow> dict \<Rightarrow> string option" where
  "message_segment str d =
     map_option (\<lambda>r. segment r (py_str str (dict_get d ''content'' (PStr '''')))) (recognized_role d)"


section \<open>Example inputs\<close>

text \<open>A stand-in for the built-in \<open>str\<close> on values that are not strings.\<close>

definition example_str :: "pyval \<Rightarrow> string" where
  "example_str v = ''?''"


text \<open>
  An engine that answers every call with one output of three prompt tokens and one
  completion of two tokens, cut off by the token limit.
\<close>

definition example_outputs :: "request_output list" where
  "example_outputs =
     [\<lparr>request_id = ''7'', prompt_token_ids = [11, 12, 13],
       outputs = [\<lparr>output_text = '' Hello! '', token_ids = [21, 22],
                   finish_reason = Some ''length''\<rparr>]\<rparr>]"

definition example_env :: handler_env where
  "example_env =
     \<lparr>MODEL_NAME = ''nemotron'',
      llm_generate = (\<lambda>prompts sampling. Inr example_outputs),
      builtin_str = example_str\<rparr>"

text \<open>A job with one user message, \<open>top_k\<close> out of range and \<open>max_tokens\<close> null.\<close>

definition example_job :: dict where
  "example_job =
     [(''input'', PDict [(''messages'', PList [PDict [(''role'', PStr ''user''), (''content'', PStr ''Hi'')]]),
                         (''top_k'', PInt (- 1)),
                         (''max_tokens'', PNone)])]"


text \<open>What the handler returns for the example job, and the call it makes.\<close>

definition example_response :: dict where
  "example_response =
     [(''id'', PStr ''notus-7''), (''object'', PStr ''chat.completion''),
      (''model'', PStr ''nemotron''),
      (''choices'', PList [PDict
         [(''index'', PInt 0),
          (''message'', PDict [(''role'', PStr ''assistant''), (''content'', PStr ''Hello!'')]),
          (''finish_reason'', PStr ''stop'')]]),
      (''usage'', PDict
         [(''prompt_tokens'', PInt 3), (''completion_tokens'', PInt 2),
          (''total_tokens'', PInt 5)])]"

definition example_calls :: "engine_call list" where
  "example_calls =
     [([''<|user|>\<newline>Hi</s><|assistant|>\<newline>''],
       \<lparr>temperature = PFloat (7 / 10), top_p = PFloat (9 / 10), top_k = PInt (- 1),
        max_tokens = PNone,
        stop = PList [PStr ''</s>'', PStr ''<|user|>'', PStr ''<|system|>''],
        presence_penalty = PFloat 0, frequency_penalty = PFloat 0\<rparr>)]"


text \<open>A request to the bridge.\<close>

definition example_request :: TaskRequest where
  "example_request = \<lparr>task = ''write a report'', task_type = Some ''general'', request_context = Some []\<rparr>"

text \<open>
  A bridge whose agent ends every run with \<open>outcome\<close>, whose workspace path exists or not,
  and lists as \<open>listing\<close>; two of the paths are regular files.
\<close>

definition example_bridge :: "(exn + pyval) \<Rightarrow> bool \<Rightarrow> (exn + string list) \<Rightarrow> bridge_env" where
  "example_bridge outcome present listing =
     \<lparr>agent = Some (\<lambda>task. outcome),
      path_exists = (\<lambda>path. present),
      listdir = (\<lambda>path. listing),
      path_isfile = (\<lambda>path. path = ''/home/ubuntu/OpenManus/workspace/report.md''
                          \<or> path = ''/home/ubuntu/OpenManus/workspace/data.csv''),
      bridge_str = example_str\<rparr>"

text \<open>What \<open>os.listdir\<close> raises on a path that is a regular file.\<close>

definition not_a_directory :: exn where
  "not_a_directory =
     Exn ''NotADirectoryError'' (''[Errno 20] Not a directory: '' @ quoted workspace_path)"

text \<open>An agent that ends every run with the text \<open>done\<close>.\<close>

definition agent_done :: "string \<Rightarrow> exn + pyval" where
  "agent_done task_text = Inr (PStr ''done'')"

text \<open>A bridge with that agent, the workspace path being a regular file.\<close>

definition workspace_is_a_file :: bridge_env where
  "workspace_is_a_file =
     \<lparr>agent = Some agent_done,
      path_exists = (\<lambda>path. path = workspace_path),
      listdir = (\<lambda>path. Inl not_a_directory),
      path_isfile = (\<lambda>path. path = workspace_path),
      bridge_str = example_str\<rparr>"

text \<open>What \<open>os.listdir\<close> raises on a directory that may not be read.\<close>

definition permission_denied :: exn where
  "permission_denied =
     Exn ''PermissionError'' (''[Errno 13] Permission denied: '' @ quoted workspace_path)"

text \<open>
  A bridge with that agent, the workspace being a directory that exists, holds the
  regular file \<open>report.md\<close> and may not be read.
\<close>

definition workspace_unreadable :: bridge_env where
  "workspace_unreadable =
     \<lparr>agent = Some agent_done,
      path_exists = (\<lambda>path. path = workspace_path
                          \<or> path = ''/home/ubuntu/OpenManus/workspace/report.md''),
      listdir = (\<lambda>path. Inl permission_denied),
      path_isfile = (\<lambda>path. path = ''/home/ubuntu/OpenManus/workspace/report.md''),
      bridge_str = example_str\<rparr>"

text \<open>A conversation of five messages, the second of a role that is not recognized.\<close>

definition example_messages :: "dict list" where
  "example_messages =
     [[(''role'', PStr ''system''), (''content'', PStr ''Be brief.'')],
      [(''role'', PStr ''tool''), (''content'', PStr ''42'')],
      [(''role'', PStr ''user''), (''content'', PStr ''Hi'')],
      [(''role'', PStr ''assistant''), (''content'', PStr ''Hello'')],
      [(''role'', PStr ''user''), (''content'', PStr ''Bye'')]]"


section \<open>Properties\<close>

subsection \<open>The prompt\<close>

lemma prompt_parts_dicts:
  "prompt_parts str (map PDict ds) parts = Inr (parts @ List.map_filter (message_segment str) ds)"
proof (induction ds arbitrary: parts)
  case Nil
  show ?case by simp
next
  case (Cons d ds)
  show ?case
    by (cases "dict_get d ''role'' (PStr ''user'')")
       (simp_all add: Cons.IH message_segment_def recognized_role_def segment_def Let_def)
qed

lemma build_prompt_dicts:
  "build_prompt str (PList (map PDict ds)) =
     Inr (concat (List.map_filter (message_segment str) ds) @ ''<|assistant|>\<newline>'')"
  by (simp add: build_prompt_def prompt_parts_dicts)

lemma length_map_filter:
  "length (List.map_filter f xs) = length (filter (\<lambda>x. f x \<noteq> None) xs)"
  by (induction xs) (auto split: option.splits)

lemma prompt_parts_append:
  "prompt_parts str (xs @ ys) parts =
     (case prompt_parts str xs parts of Inl e \<Rightarrow> Inl e | Inr parts' \<Rightarrow> prompt_parts str ys parts')"
proof (induction xs arbitrary: parts)
  case Nil
  show ?case by simp
next
  case (Cons x xs)
  show ?case by (cases x) (simp_all add: Cons.IH Let_def)
qed

lemma prompt_parts_dropped:
  assumes "map_of d ''role'' = Some r" "r \<noteq> PStr ''system''" "r \<noteq> PStr ''user''" "r \<noteq> PStr ''assistant''"
  shows "prompt_parts str (PDict d # msgs) parts = prompt_parts str msgs parts"
  using assms by (simp add: dict_get_def Let_def)

text \<open>
  Claim C1. For a list of message dicts with at least one message of a recognized role,
  the prompt that \<open>generate_response\<close> builds and hands to the engine is the segments of
  the messages of a recognized role, one for each, in the order of the list, joined with
  nothing between them, followed by the open assistant marker, with which it ends.
\<close>

theorem prompt_of_recognized_messages:
  assumes "\<exists>d \<in> set ds. recognized_role d \<noteq> None"
  shows "\<exists>prompt. build_prompt (builtin_str env) (PList (map PDict ds)) = Inr prompt
         \<and> suffix ''<|assistant|>\<newline>'' prompt
         \<and> prompt = concat (List.map_filter (message_segment (builtin_str env)) ds) @ ''<|assistant|>\<newline>''
         \<and> length (List.map_filter (message_segment (builtin_str env)) ds) =
             length (filter (\<lambda>d. recognized_role d \<noteq> None) ds)
         \<and> snd (generate_response env (PList (map PDict ds)) params) =
             [([prompt], sampling_params_of params)]"
proof -
  have "length (List.map_filter (message_segment (builtin_str env)) ds) =
          length (filter (\<lambda>d. recognized_role d \<noteq> None) ds)"
    by (simp add: length_map_filter message_segment_def)
  moreover have "snd (generate_response env (PList (map PDict ds)) params) =
      [([concat (List.map_filter (message_segment (builtin_str env)) ds) @ ''<|assistant|>\<newline>''],
        sampling_params_of params)]"
    unfolding generate_response_def build_prompt_dicts by (simp add: Let_def split: sum.splits)
  ultimately show ?thesis
    unfolding build_prompt_dicts by (simp add: suffix_def)
qed

theorem prompt_of_recognized_messages_witness:
  "(\<exists>d \<in> set example_messages. recognized_role d \<noteq> None)
   \<and> build_prompt (builtin_str example_env) (PList (map PDict example_messages)) =
   Inr ''<|system|>\<newline>Be brief.</s><|user|>\<newline>Hi</s><|assistant|>\<newline>Hello</s><|user|>\<newline>Bye</s><|assistant|>\<newline>''"
  using prompt_of_recognized_messages [of example_messages example_env]
  by (simp add: example_messages_def message_segment_def recognized_role_def segment_def dict_get_def py_str_def)

text \<open>
  Claim C4. A message whose \<open>role\<close> is present and is none of \<open>system\<close>, \<open>user\<close> and
  \<open>assistant\<close> emits no segment: wherever it stands in the list, the prompt, and with it
  all that \<open>generate_response\<close> does, is that of the list without it.
\<close>

theorem unrecognized_role_dropped:
  assumes "map_of d ''role'' = Some r"
    and "r \<noteq> PStr ''system''" and "r \<noteq> PStr ''user''" and "r \<noteq> PStr ''assistant''"
  shows "build_prompt str (PList (before @ PDict d # after)) = build_prompt str (PList (before @ after))
       \<and> generate_response env (PList (before @ PDict d # after)) params =
         generate_response env (PList (before @ after)) params"
proof -
  have "prompt_parts s (before @ PDict d # after) [] = prompt_parts s (before @ after) []" for s
    by (simp add: prompt_parts_append prompt_parts_dropped [OF assms]
        del: prompt_parts.simps split: sum.splits)
  then have "build_prompt s (PList (before @ PDict d # after)) = build_prompt s (PList (before @ after))" for s
    by (simp add: build_prompt_def)
  then show ?thesis by (simp add: generate_response_def)
qed

theorem unrecognized_role_dropped_witness:
  "build_prompt example_str
     (PList ([PDict [(''role'', PStr ''user''), (''content'', PStr ''Hi'')]]
             @ PDict [(''role'', PStr ''tool''), (''content'', PStr ''42'')] # [PNone])) =
   build_prompt example_str
     (PList ([PDict [(''role'', PStr ''user''), (''content'', PStr ''Hi'')]] @ [PNone]))
   \<and> build_prompt example_str (PList [PDict [(''role'', PStr ''tool''), (''content'', PStr ''42'')]]) =
     Inr ''<|assistant|>\<newline>''"
  using unrecognized_role_dropped [of "[(''role'', PStr ''tool''), (''content'', PStr ''42'')]" "PStr ''tool''"
      example_str "[PDict [(''role'', PStr ''user''), (''content'', PStr ''Hi'')]]" "[PNone]"]
    unrecognized_role_dropped [of "[(''role'', PStr ''tool''), (''content'', PStr ''42'')]" "PStr ''tool''"
      example_str "[]" "[]"]
  by (simp add: build_prompt_def)

lemma map_filter_append:
  "List.map_filter f (xs @ ys) = List.map_filter f xs @ List.map_filter f ys"
  by (induction xs) (auto split: option.splits)

text \<open>
  Claim C9. A message dict without a \<open>role\<close> key is rendered as a user message: its
  segment is the user tag, a newline, its content and the end-of-turn marker, at its
  place among the segments of the other messages. A message dict without a \<open>content\<close>
  key, of a recognized role (given, or \<open>user\<close> by default), is rendered with empty content:
  its segment is the role tag, a newline and the end-of-turn marker.
\<close>

theorem missing_role_is_user:
  "(map_of d ''role'' = None \<longrightarrow>
      build_prompt str (PList (map PDict (before @ d # after))) =
        Inr (concat (List.map_filter (message_segment str) before)
             @ (''<|user|>\<newline>'' @ py_str str (dict_get d ''content'' (PStr '''')) @ ''</s>'')
             @ concat (List.map_filter (message_segment str) after)
             @ ''<|assistant|>\<newline>''))
   \<and> (map_of d ''content'' = None \<and> recognized_role d = Some r \<longrightarrow>
      build_prompt str (PList (map PDict (before @ d # after))) =
        Inr (concat (List.map_filter (message_segment str) before)
             @ (''<|'' @ r @ ''|>\<newline>'' @ ''</s>'')
             @ concat (List.map_filter (message_segment str) after)
             @ ''<|assistant|>\<newline>''))"
proof -
  have "message_segment str d =
          Some (''<|user|>\<newline>'' @ py_str str (dict_get d ''content'' (PStr '''')) @ ''</s>'')"
    if "map_of d ''role'' = None"
    using that by (simp add: message_segment_def recognized_role_def segment_def dict_get_def)
  moreover have "message_segment str d = Some (''<|'' @ r @ ''|>\<newline>'' @ ''</s>'')"
    if "map_of d ''content'' = None" "recognized_role d = Some r"
    using that by (simp add: message_segment_def segment_def dict_get_def py_str_def)
  ultimately show ?thesis
    unfolding build_prompt_dicts map_filter_append by simp
qed

theorem missing_role_is_user_witness:
  "build_prompt example_str (PList (map PDict ([[(''role'', PStr ''system''), (''content'', PStr ''S'')]]
       @ [(''content'', PStr ''Hi'')] # [[(''role'', PStr ''assistant'')]]))) =
     Inr ''<|system|>\<newline>S</s><|user|>\<newline>Hi</s><|assistant|>\<newline></s><|assistant|>\<newline>''
   \<and> build_prompt example_str (PList (map PDict ([] @ [] # []))) =
     Inr ''<|user|>\<newline></s><|assistant|>\<newline>''"
  using missing_role_is_user [of "[(''content'', PStr ''Hi'')]" example_str
      "[[(''role'', PStr ''system''), (''content'', PStr ''S'')]]" "[[(''role'', PStr ''assistant'')]]" "''user''"]
    missing_role_is_user [of "[]" example_str "[]" "[]" "''user''"]
  by (simp add: message_segment_def recognized_role_def segment_def dict_get_def py_str_def)

subsection \<open>The handler\<close>

text \<open>
  Claim C2. When the job has no \<open>input\<close>, or its \<open>input\<close> is a dict whose \<open>messages\<close> is
  absent or the empty list, the handler returns the dict with the one key \<open>error\<close> and the
  text \<open>No messages provided in request\<close>; it returns it, raising nothing, and the
  engine has not been called.
\<close>

theorem no_messages_error:
  assumes "map_of job ''input'' = None
         \<or> (\<exists>job_input. map_of job ''input'' = Some (PDict job_input)
              \<and> (map_of job_input ''messages'' = None
                 \<or> map_of job_input ''messages'' = Some (PList [])))"
  shows "handler env job = (Inr (PDict [(''error'', PStr ''No messages provided in request'')]), [])"
  using assms by (auto simp add: handler_def dict_get_def)

theorem no_messages_error_witness:
  "handler example_env [(''input'', PDict [(''messages'', PList []), (''temperature'', PInt 1)])] =
     (Inr (PDict [(''error'', PStr ''No messages provided in request'')]), [])
   \<and> handler example_env [(''input'', PDict [(''temperature'', PInt 1)])] =
     (Inr (PDict [(''error'', PStr ''No messages provided in request'')]), [])
   \<and> handler example_env [(''id'', PStr ''job-1'')] =
     (Inr (PDict [(''error'', PStr ''No messages provided in request'')]), [])"
  using no_messages_error [of "[(''input'', PDict [(''messages'', PList []), (''temperature'', PInt 1)])]" example_env]
    no_messages_error [of "[(''input'', PDict [(''temperature'', PInt 1)])]" example_env]
    no_messages_error [of "[(''id'', PStr ''job-1'')]" example_env]
  by simp





lemma handler_success:
  assumes "handler env job = (Inr (PDict response), calls)"
    and "map_of response ''error'' = None"
  shows "\<exists>prompt sampling outs. calls = [([prompt], sampling)]
       \<and> llm_generate env [prompt] sampling = Inr outs
       \<and> response_of (MODEL_NAME env) outs = Inr (PDict response)"
proof (cases "dict_get job ''input'' (PDict [])")
  case (PDict job_input)
  show ?thesis
  proof (cases "truthy (dict_get job_input ''messages'' (PList []))")
    case False
    with PDict assms show ?thesis by (auto simp add: handler_def)
  next
    case True
    with PDict assms show ?thesis
      by (auto simp add: handler_def generate_response_def Let_def split: sum.splits)
  qed
qed (use assms in \<open>simp_all add: handler_def\<close>)

lemma response_of_Inr:
  assumes "response_of model_name outs = Inr r"
  shows "\<exists>out0 rest completion rest'. outs = out0 # rest \<and> outputs out0 = completion # rest'
     \<and> r = PDict
         [(''id'', PStr (''notus-'' @ request_id out0)),
          (''object'', PStr ''chat.completion''),
          (''model'', PStr model_name),
          (''choices'', PList [PDict
             [(''index'', PInt 0),
              (''message'', PDict
                 [(''role'', PStr ''assistant''),
                  (''content'', PStr (strip (output_text completion)))]),
              (''finish_reason'', PStr ''stop'')]]),
          (''usage'', PDict
             [(''prompt_tokens'', PInt (int (length (prompt_token_ids out0)))),
              (''completion_tokens'', PInt (int (length (token_ids completion)))),
              (''total_tokens'', PInt (int (length (prompt_token_ids out0))
                                        + int (length (token_ids completion))))])]"
  using assms by (auto simp add: response_of_def Let_def split: list.splits)

lemma example_run: "handler example_env example_job = (Inr (PDict example_response), example_calls)"
  by (simp add: example_job_def example_env_def example_outputs_def example_response_def example_calls_def
      handler_def handler_params_def sampling_params_of_def dict_get_def generate_response_def
      build_prompt_def py_str_def response_of_def strip_def isspace_def Let_def)

lemma example_run_no_error: "map_of example_response ''error'' = None"
  by (simp add: example_response_def)

text \<open>
  Claim C6. Every response the handler returns that is not an error dict has one
  choice, and the \<open>finish_reason\<close> of that choice is the string \<open>stop\<close>, whatever engine
  ran and whatever reason for ending it reported.
\<close>

theorem finish_reason_stop:
  assumes "handler env job = (Inr (PDict response), calls)"
    and "map_of response ''error'' = None"
  shows "\<exists>choice. map_of response ''choices'' = Some (PList [PDict choice])
       \<and> map_of choice ''finish_reason'' = Some (PStr ''stop'')"
proof -
  from handler_success [OF assms] obtain outs
    where "response_of (MODEL_NAME env) outs = Inr (PDict response)" by blast
  from response_of_Inr [OF this] show ?thesis by auto
qed

theorem finish_reason_stop_witness:
  "map (map finish_reason \<circ> outputs) example_outputs = [[Some ''length'']]
   \<and> handler example_env example_job = (Inr (PDict example_response), example_calls)
   \<and> map_of example_response ''error'' = None
   \<and> (\<exists>choice. map_of example_response ''choices'' = Some (PList [PDict choice])
        \<and> map_of choice ''finish_reason'' = Some (PStr ''stop''))"
  using finish_reason_stop [OF example_run example_run_no_error] example_run example_run_no_error
  by (simp add: example_outputs_def)

text \<open>
  Claim C7. In every response the handler returns that is not an error dict,
  \<open>prompt_tokens\<close> and \<open>completion_tokens\<close> are the lengths of the prompt token ids of
  the first output the engine returned and of the token ids of its first completion, and
  \<open>total_tokens\<close> is their sum.
\<close>

theorem usage_total:
  assumes "handler env job = (Inr (PDict response), calls)"
    and "map_of response ''error'' = None"
  shows "\<exists>prompt sampling out0 rest completion rest'.
       calls = [([prompt], sampling)]
     \<and> llm_generate env [prompt] sampling = Inr (out0 # rest)
     \<and> outputs out0 = completion # rest'
     \<and> map_of response ''usage'' = Some (PDict
         [(''prompt_tokens'', PInt (int (length (prompt_token_ids out0)))),
          (''completion_tokens'', PInt (int (length (token_ids completion)))),
          (''total_tokens'', PInt (int (length (prompt_token_ids out0))
                                    + int (length (token_ids completion))))])"
proof -
  from handler_success [OF assms] obtain prompt sampling outs
    where c: "calls = [([prompt], sampling)]"
      and g: "llm_generate env [prompt] sampling = Inr outs"
      and r: "response_of (MODEL_NAME env) outs = Inr (PDict response)" by blast
  from response_of_Inr [OF r] c g show ?thesis by auto
qed

theorem usage_total_witness:
  "handler example_env example_job = (Inr (PDict example_response), example_calls)
   \<and> map_of example_response ''error'' = None
   \<and> map_of example_response ''usage'' = Some (PDict
         [(''prompt_tokens'', PInt 3), (''completion_tokens'', PInt 2), (''total_tokens'', PInt 5)])"
  using usage_total [OF example_run example_run_no_error] example_run example_run_no_error
  by (simp add: example_response_def)

lemma path_join_workspace:
  assumes "CHR ''/'' \<notin> set name"
  shows "path_join workspace_path name = ''/home/ubuntu/OpenManus/workspace/'' @ name"
  using assms by (cases name) (auto simp add: path_join_def workspace_path_def)

lemma workspace_files_filter:
  "workspace_files isfile names found = found @ filter isfile (map (path_join workspace_path) names)"
  by (induction names arbitrary: found) (simp_all add: Let_def)

subsection \<open>The bridge\<close>

text \<open>
  Claim C5. When the agent is initialized and its run raises an exception, \<open>/execute\<close>
  returns a body, hence with the status of success: \<open>success\<close> false, \<open>error\<close> the message of
  the exception, \<open>result\<close> null and \<open>files\<close> empty; \<open>/chat\<close>, on the same agent and request, raises
  an \<open>HTTPException\<close> of status 500 whose detail is that message.
\<close>

theorem agent_exception_asymmetry:
  assumes "agent env = Some run" and "run (task request) = Inl e"
  shows "execute_task env request =
           Inr \<lparr>success = False, result = None, error = Some (message e), files = Some []\<rparr>
       \<and> chat env request = Inl (HTTPException 500 (message e))"
  using assms by (simp add: execute_task_def chat_def failed_def)

theorem agent_exception_asymmetry_witness:
  "execute_task (example_bridge (Inl (Exn ''ValueError'' ''bad task'')) False (Inr [])) example_request =
     Inr \<lparr>success = False, result = None, error = Some ''bad task'', files = Some []\<rparr>
   \<and> chat (example_bridge (Inl (Exn ''ValueError'' ''bad task'')) False (Inr [])) example_request =
     Inl (HTTPException 500 ''bad task'')"
  using agent_exception_asymmetry [of "example_bridge (Inl (Exn ''ValueError'' ''bad task'')) False (Inr [])"
      "\<lambda>task. Inl (Exn ''ValueError'' ''bad task'')" example_request "Exn ''ValueError'' ''bad task''"]
  by (simp add: example_bridge_def)

text \<open>
  Claim C8 says that whenever the agent's run completes without exception, \<open>result\<close> is the
  text of the agent's result, or \<open>Task completed\<close> for a falsy one. It fails where the
  workspace path exists and cannot be listed, here because it is a regular file: the
  agent returns \<open>done\<close>, \<open>os.listdir\<close> raises inside the same \<open>try\<close>, and the response carries
  the listing's error and no result.
\<close>

theorem result_lost_when_listing_fails:
  "agent workspace_is_a_file = Some agent_done
   \<and> agent_done (task example_request) = Inr (PStr ''done'')
   \<and> truthy (PStr ''done'')
   \<and> py_str (bridge_str workspace_is_a_file) (PStr ''done'') = ''done''
   \<and> execute_task workspace_is_a_file example_request =
       Inr \<lparr>success = False, result = None, error = Some (message not_a_directory), files = Some []\<rparr>"
  by (simp add: workspace_is_a_file_def agent_done_def execute_task_def failed_def py_str_def)

text \<open>
  Claim C8, amended. When the agent's run completes without exception and the listing of
  the workspace raises nothing (the path does not exist, or \<open>os.listdir\<close> returns), the
  response is a success whose \<open>result\<close> is the text of the agent's result when that result
  is truthy, and \<open>Task completed\<close> when it is falsy.
\<close>

theorem result_text_when_listed:
  assumes "agent env = Some run" and "run (task request) = Inr res"
    and "path_exists env workspace_path \<longrightarrow> (\<exists>names. listdir env workspace_path = Inr names)"
  shows "\<exists>response. execute_task env request = Inr response
       \<and> success response
       \<and> result response =
           Some (if truthy res then py_str (bridge_str env) res else ''Task completed'')"
  using assms by (auto simp add: execute_task_def Let_def)

theorem result_text_when_listed_witness:
  "execute_task (example_bridge (Inr (PStr ''done'')) True (Inr [''report.md''])) example_request =
     Inr \<lparr>success = True, result = Some ''done'', error = None,
          files = Some [''/home/ubuntu/OpenManus/workspace/report.md'']\<rparr>
   \<and> execute_task (example_bridge (Inr (PStr '''')) False (Inl not_a_directory)) example_request =
     Inr \<lparr>success = True, result = Some ''Task completed'', error = None, files = Some []\<rparr>
   \<and> execute_task (example_bridge (Inr PNone) False (Inl not_a_directory)) example_request =
     Inr \<lparr>success = True, result = Some ''Task completed'', error = None, files = Some []\<rparr>"
  using result_text_when_listed [of "example_bridge (Inr (PStr ''done'')) True (Inr [''report.md''])"
      "\<lambda>task. Inr (PStr ''done'')" example_request "PStr ''done''"]
    result_text_when_listed [of "example_bridge (Inr (PStr '''')) False (Inl not_a_directory)"
      "\<lambda>task. Inr (PStr '''')" example_request "PStr ''''"]
    result_text_when_listed [of "example_bridge (Inr PNone) False (Inl not_a_directory)"
      "\<lambda>task. Inr PNone" example_request PNone]
  by (simp add: example_bridge_def execute_task_def workspace_path_def path_join_def py_str_def Let_def)

text \<open>
  Claim C10 says that whenever the agent's run completes without exception and the
  workspace directory exists, \<open>files\<close> holds exactly the full paths of its immediate regular
  files. It fails where the directory exists and cannot be listed: the agent returns
  \<open>done\<close>, the directory holds the regular file \<open>report.md\<close>, \<open>os.listdir\<close> raises inside the
  \<open>try\<close>, and the response is a failure whose \<open>files\<close> is empty.
\<close>

theorem files_lost_when_listing_fails:
  "agent workspace_unreadable = Some agent_done
   \<and> agent_done (task example_request) = Inr (PStr ''done'')
   \<and> path_exists workspace_unreadable workspace_path
   \<and> path_join workspace_path ''report.md'' = ''/home/ubuntu/OpenManus/workspace/report.md''
   \<and> path_isfile workspace_unreadable ''/home/ubuntu/OpenManus/workspace/report.md''
   \<and> execute_task workspace_unreadable example_request =
       Inr \<lparr>success = False, result = None, error = Some (message permission_denied), files = Some []\<rparr>"
  by (simp add: workspace_unreadable_def agent_done_def execute_task_def failed_def
      workspace_path_def path_join_def)

text \<open>
  Claim C10, amended. When the agent's run completes without exception: if the workspace
  path does not exist, the response is a success with no error and an empty \<open>files\<close>; if
  it exists and \<open>os.listdir\<close> returns, listing it as \<open>names\<close>, the response is a success whose
  \<open>files\<close> are, in the order of the listing, the joined paths of exactly those entries that
  are files, entries that are not (subdirectories) being left out. The joined path of an
  entry is the workspace path, a slash and the entry's name.
\<close>

theorem workspace_listing:
  assumes "agent env = Some run" and "run (task request) = Inr res"
  shows "(\<not> path_exists env workspace_path \<longrightarrow>
            (\<exists>response. execute_task env request = Inr response
               \<and> success response \<and> error response = None \<and> files response = Some []))
       \<and> (path_exists env workspace_path \<and> listdir env workspace_path = Inr names \<longrightarrow>
            (\<exists>response. execute_task env request = Inr response
               \<and> success response \<and> error response = None
               \<and> files response =
                   Some (filter (path_isfile env) (map (path_join workspace_path) names))))
       \<and> (CHR ''/'' \<notin> set name \<longrightarrow>
            path_join workspace_path name = ''/home/ubuntu/OpenManus/workspace/'' @ name)"
  using assms by (auto simp add: execute_task_def Let_def workspace_files_filter path_join_workspace)

theorem workspace_listing_witness:
  "execute_task (example_bridge (Inr (PStr ''done'')) False (Inl not_a_directory)) example_request =
     Inr \<lparr>success = True, result = Some ''done'', error = None, files = Some []\<rparr>
   \<and> execute_task (example_bridge (Inr (PStr ''done'')) True
        (Inr [''report.md'', ''charts'', ''data.csv''])) example_request =
     Inr \<lparr>success = True, result = Some ''done'', error = None,
          files = Some [''/home/ubuntu/OpenManus/workspace/report.md'',
                        ''/home/ubuntu/OpenManus/workspace/data.csv'']\<rparr>
   \<and> path_join workspace_path ''report.md'' = ''/home/ubuntu/OpenManus/workspace/report.md''"
  using workspace_listing [of "example_bridge (Inr (PStr ''done'')) False (Inl not_a_directory)"
      "\<lambda>task. Inr (PStr ''done'')" example_request "PStr ''done''" "[]" "''report.md''"]
    workspace_listing [of "example_bridge (Inr (PStr ''done'')) True (Inr [''report.md'', ''charts'', ''data.csv''])"
      "\<lambda>task. Inr (PStr ''done'')" example_request "PStr ''done''" "[''report.md'', ''charts'', ''data.csv'']"
      "''report.md''"]
  by (simp add: example_bridge_def execute_task_def workspace_path_def path_join_def py_str_def Let_def)

end
